theory Spec2Isabelle
  imports Complex_Main
begin

section \<open>JavaScript values\<close>

text \<open>
  A JavaScript string is a sequence of UTF-16 code units; a code unit is a natural number
  here, so that every character a user can type into a name field is representable.
  \<open>js\<close> reads an ASCII literal as such a string.  Numbers are idealised as reals
  (\<open>NaN\<close> and the infinities are never produced by the form's inputs).
\<close>

type_synonym jsstring = "nat list"

definition js :: "string \<Rightarrow> jsstring" where
  "js s = map of_char s"

text \<open>The WhiteSpace and LineTerminator code points of ECMAScript, which
  \<open>String.prototype.trim\<close> removes from both ends.\<close>

definition isWhiteSpace :: "nat \<Rightarrow> bool" where
  "isWhiteSpace c \<longleftrightarrow>
     c \<in> {9, 10, 11, 12, 13, 32, 160, 5760, 8232, 8233, 8239, 8287, 12288, 65279}
     \<or> (8192 \<le> c \<and> c \<le> 8202)"

definition trim :: "jsstring \<Rightarrow> jsstring" where
  "trim s = rev (dropWhile isWhiteSpace (rev (dropWhile isWhiteSpace s)))"

text \<open>\<open>Number.prototype.toString\<close> on a non-negative integer: its decimal digits.\<close>

fun toString_nat :: "nat \<Rightarrow> jsstring" where
  "toString_nat n =
     (if n < 10 then [48 + n] else toString_nat (n div 10) @ [48 + n mod 10])"

declare toString_nat.simps [simp del]

section \<open>Data model\<close>

text \<open>
  The \<open>Subject\<close> interface is declared in \<open>utils/gradeCalculations\<close>, which is not among
  the sources; its four fields are those of the entries the component creates
  (\<open>id\<close>, \<open>name\<close>, \<open>marks\<close>, \<open>creditHours\<close>).  \<open>marks\<close> is any number: it is checked against
  [0, 100] only on calculation.  \<open>creditHours\<close> is an integer weight (section 3 of the
  specification); the form's select offers 1 to 4.
\<close>

record subject =
  id_s :: jsstring
  name :: jsstring
  marks :: real
  creditHours :: nat

record gpa_result =
  gpa :: real
  grade :: jsstring
  remarks :: jsstring

text \<open>The component state of \<open>GPACalculator\<close>: one field per \<open>useState\<close> hook.\<close>

record state =
  open_popover :: bool
  subjectCount :: "nat option"
  subjects :: "subject list"
  result :: "gpa_result option"
  showModal :: bool

definition initialState :: state where
  "initialState =
     \<lparr>open_popover = False, subjectCount = None, subjects = [], result = None,
      showModal = False\<rparr>"

definition subjectOptions :: "nat list" where
  "subjectOptions = [4, 5, 6, 7, 8]"

section \<open>Effects\<close>

text \<open>
  What a handler does besides updating the state: notifications (\<open>toast\<close>), timers
  (\<open>setTimeout\<close>), the console, the document handed to \<open>jsPDF\<close>, and the confetti
  animation on its own canvas (the animation's frames depend on the clock and are one
  effect here, with its duration in milliseconds).
\<close>

datatype variant = Default | Destructive

datatype timer = TriggerConfetti real

datatype pdf_op =
    SetFont jsstring
  | SetFontSize nat
  | SetTextColor nat nat nat
  | SetDrawColor nat nat nat
  | Text jsstring nat nat
  | Line nat nat nat nat
  | AddPage

datatype effect =
    Toast jsstring jsstring variant
  | SetTimeout timer nat
  | ConsoleError jsstring jsstring
  | Save "pdf_op list" jsstring
  | Confetti nat

text \<open>
  The functions imported from \<open>utils/gradeCalculations\<close> and the library calls whose code
  is not part of the component are parameters of the model: the four grade functions,
  \<open>Number.prototype.toString\<close> and \<open>toFixed\<close> on arbitrary numbers, and \<open>jsPDF\<close>, which
  either carries out the calls of a document or throws (\<open>Inl\<close> the error).
\<close>

record platform =
  calculateGPA :: "subject list \<Rightarrow> real"
  getGPAPercentage :: "real \<Rightarrow> real"
  getLetterGrade :: "real \<Rightarrow> jsstring"
  getRemarks :: "real \<Rightarrow> jsstring"
  numberToString :: "real \<Rightarrow> jsstring"
  toFixed :: "real \<Rightarrow> nat \<Rightarrow> jsstring"
  jsPDF :: "pdf_op list \<Rightarrow> jsstring \<Rightarrow> jsstring + unit"

text \<open>The two readings of \<open>new Date()\<close> that the export uses.\<close>

record date =
  toLocaleDateString :: jsstring
  toISOString :: jsstring

section \<open>Subject form state\<close>

text \<open>The body of the effect on \<open>[subjectCount]\<close>: \<open>null\<close> and \<open>0\<close> are falsy.\<close>

definition subjectCountEffect :: "state \<Rightarrow> state" where
  "subjectCountEffect s =
     (case subjectCount s of
        Some n \<Rightarrow>
          if n \<noteq> 0 then
            s\<lparr>subjects :=
                map (\<lambda>index. \<lparr>id_s = toString_nat (index + 1), name = [], marks = 0,
                                creditHours = 1\<rparr>) [0..<n]\<rparr>
          else s\<lparr>subjects := []\<rparr>
      | None \<Rightarrow> s\<lparr>subjects := []\<rparr>)"

text \<open>
  The state setter followed by the render it causes: React skips the render, and with it
  the effect, when the new value is the current one; otherwise the effect runs because
  its dependency changed.
\<close>

definition setSubjectCount :: "nat option \<Rightarrow> state \<Rightarrow> state" where
  "setSubjectCount c s =
     (if c = subjectCount s then s else subjectCountEffect (s\<lparr>subjectCount := c\<rparr>))"

text \<open>\<open>onSelect\<close> of the option with value \<open>v\<close>.\<close>

definition onSelect :: "nat \<Rightarrow> state \<Rightarrow> state" where
  "onSelect v s =
     (setSubjectCount (if Some v = subjectCount s then None else Some v) s)
       \<lparr>open_popover := False\<rparr>"

text \<open>
  \<open>updateSubject(id, field, value)\<close>: a field together with its new value.  The three
  call sites pass a string for \<open>name\<close> and a number for \<open>marks\<close> and \<open>creditHours\<close>.
\<close>

datatype update = SetId jsstring | SetName jsstring | SetMarks real | SetCreditHours nat

fun setField :: "update \<Rightarrow> subject \<Rightarrow> subject" where
  "setField (SetId v) subject = subject\<lparr>id_s := v\<rparr>"
| "setField (SetName v) subject = subject\<lparr>name := v\<rparr>"
| "setField (SetMarks v) subject = subject\<lparr>marks := v\<rparr>"
| "setField (SetCreditHours v) subject = subject\<lparr>creditHours := v\<rparr>"

definition updateSubject :: "jsstring \<Rightarrow> update \<Rightarrow> state \<Rightarrow> state" where
  "updateSubject i u s =
     s\<lparr>subjects :=
         map (\<lambda>subject. if id_s subject = i then setField u subject else subject)
           (subjects s)\<rparr>"

section \<open>Calculation\<close>

definition triggerConfetti :: "real \<Rightarrow> state \<Rightarrow> state \<times> effect list" where
  "triggerConfetti g s = (s, if g \<ge> 3 then [Confetti 1000] else [])"

fun fire :: "timer \<Rightarrow> state \<Rightarrow> state \<times> effect list" where
  "fire (TriggerConfetti g) s = triggerConfetti g s"

definition validSubjects :: "state \<Rightarrow> subject list" where
  "validSubjects s =
     filter (\<lambda>subject. trim (name subject) \<noteq> [] \<and> marks subject \<ge> 0 \<and> marks subject \<le> 100)
       (subjects s)"

definition invalidInput :: effect where
  "invalidInput =
     Toast (js ''Invalid Input'')
       (js ''Please fill in all subject details with marks between 0-100.'') Destructive"

definition incompleteData :: effect where
  "incompleteData =
     Toast (js ''Incomplete Data'')
       (js ''Please fill in all subjects before calculating.'') Destructive"

definition calculateResult :: "platform \<Rightarrow> state \<Rightarrow> state \<times> effect list" where
  "calculateResult P s =
     (if length (validSubjects s) = 0 then (s, [invalidInput])
      else if Some (length (validSubjects s)) \<noteq> subjectCount s then (s, [incompleteData])
      else
        let g = calculateGPA P (validSubjects s);
            percentage = getGPAPercentage P g
        in (s\<lparr>result := Some \<lparr>gpa = g, grade = getLetterGrade P percentage,
                                remarks = getRemarks P percentage\<rparr>,
               showModal := True\<rparr>,
            [SetTimeout (TriggerConfetti g) 500]))"

section \<open>Result overlay\<close>

text \<open>\<open>onClose\<close> as \<open>GPACalculator\<close> passes it to \<open>ResultModal\<close>, whose \<open>isOpen\<close> is \<open>showModal\<close>.\<close>

definition onClose :: "state \<Rightarrow> state" where
  "onClose s = s\<lparr>showModal := False\<rparr>"

text \<open>The three dismiss gestures of \<open>ResultModal\<close>: the Escape key, a click whose target is
  the backdrop itself, and the close button.\<close>

definition handleEscape :: "jsstring \<Rightarrow> state \<Rightarrow> state" where
  "handleEscape key s = (if key = js ''Escape'' \<and> showModal s then onClose s else s)"

definition handleBackdropClick :: "bool \<Rightarrow> state \<Rightarrow> state" where
  "handleBackdropClick targetIsCurrentTarget s = (if targetIsCurrentTarget then onClose s else s)"

definition handleCloseClick :: "state \<Rightarrow> state" where
  "handleCloseClick s = onClose s"

section \<open>Export\<close>

definition subjectLine :: "platform \<Rightarrow> nat \<Rightarrow> subject \<Rightarrow> jsstring" where
  "subjectLine P index subject =
     toString_nat (index + 1) @ js ''. '' @ name subject @ js '': ''
       @ numberToString P (marks subject) @ js ''/100 (''
       @ toString_nat (creditHours subject) @ js '' credit hours)''"

text \<open>One round of \<open>subjects.forEach\<close>: the calls made on \<open>doc\<close> so far, and \<open>yPosition\<close>.\<close>

definition forEachSubject ::
  "platform \<Rightarrow> pdf_op list \<times> nat \<Rightarrow> nat \<times> subject \<Rightarrow> pdf_op list \<times> nat" where
  "forEachSubject P acc entry =
     (case (acc, entry) of ((doc, yPosition), (index, subject)) \<Rightarrow>
        if yPosition > 270
        then (doc @ [AddPage, Text (subjectLine P index subject) 30 20], 20 + 10)
        else (doc @ [Text (subjectLine P index subject) 30 yPosition], yPosition + 10))"

definition pdfHeader :: "platform \<Rightarrow> gpa_result \<Rightarrow> pdf_op list" where
  "pdfHeader P r =
     [SetFont (js ''helvetica''),
      SetFontSize 20, SetTextColor 0 136 204,
      Text (js ''UoH GPA Calculator Results'') 20 30,
      SetDrawColor 238 238 238, Line 20 35 190 35,
      SetFontSize 14, SetTextColor 0 0 0,
      Text (js ''Results:'') 20 50,
      SetFontSize 12,
      Text (js ''GPA: '' @ toFixed P (gpa r) 2) 30 65,
      Text (js ''Grade: '' @ grade r) 30 75,
      Text (js ''Remarks: '' @ remarks r) 30 85,
      SetFontSize 14,
      Text (js ''Subject Details:'') 20 105,
      SetFontSize 10]"

text \<open>The footer's second line; its dash is U+2013.\<close>

definition preparedBy :: jsstring where
  "preparedBy = js ''Prepared by students of Batch 2024 '' @ [8211] @ js '' AI Section A & B''"

definition pdfFooter :: "date \<Rightarrow> pdf_op list \<times> nat \<Rightarrow> pdf_op list" where
  "pdfFooter now acc =
     (case acc of (doc, yPosition) \<Rightarrow>
        (let (doc', yPosition') =
               (if yPosition > 250 then (doc @ [AddPage], 20) else (doc, yPosition))
         in doc' @
            [SetFontSize 8, SetTextColor 151 151 151,
             Text (js ''Generated on: '' @ toLocaleDateString now) 20 (yPosition' + 20),
             Text preparedBy 20 (yPosition' + 30)]))"

text \<open>Every call on \<open>doc\<close> before \<open>doc.save\<close>, in order.\<close>

definition pdfDocument :: "platform \<Rightarrow> date \<Rightarrow> gpa_result \<Rightarrow> subject list \<Rightarrow> pdf_op list" where
  "pdfDocument P now r subs =
     pdfFooter now (foldl (forEachSubject P) (pdfHeader P r, 120) (enumerate 0 subs))"

text \<open>\<open>toISOString().split('T')[0]\<close>: the part before the first \<open>T\<close> (code unit 84).\<close>

definition pdfFilename :: "date \<Rightarrow> jsstring" where
  "pdfFilename now =
     js ''GPA_Results_'' @ takeWhile (\<lambda>c. c \<noteq> 84) (toISOString now) @ js ''.pdf''"

definition exportComplete :: effect where
  "exportComplete =
     Toast (js ''Export Complete'')
       (js ''Your GPA results have been downloaded as a PDF file.'') Default"

definition exportError :: effect where
  "exportError =
     Toast (js ''Export Error'')
       (js ''There was an error generating the PDF. Please try again.'') Destructive"

definition exportToPDF :: "platform \<Rightarrow> date \<Rightarrow> state \<Rightarrow> state \<times> effect list" where
  "exportToPDF P now s =
     (case result s of
        None \<Rightarrow> (s, [])
      | Some r \<Rightarrow>
          (case jsPDF P (pdfDocument P now r (subjects s)) (pdfFilename now) of
             Inr _ \<Rightarrow>
               (s\<lparr>showModal := False\<rparr>,
                [Save (pdfDocument P now r (subjects s)) (pdfFilename now), exportComplete])
           | Inl error \<Rightarrow>
               (s, [ConsoleError (js ''Error generating PDF:'') error, exportError])))"

text \<open>The strings a document draws, in drawing order.\<close>

fun texts :: "pdf_op list \<Rightarrow> jsstring list" where
  "texts [] = []"
| "texts (Text t x y # ops) = t # texts ops"
| "texts (_ # ops) = texts ops"

text \<open>Where the \<open>k\<close>-th subject line (counting from 0) is drawn, and whether a page is added
  before it: the first page holds 16 lines from 120 down to 270, every later page 26 lines
  from 20 down to 270.\<close>

definition pageBreakBefore :: "nat \<Rightarrow> bool" where
  "pageBreakBefore k \<longleftrightarrow> k mod 26 = 16"

definition lineY :: "nat \<Rightarrow> nat" where
  "lineY k = (if pageBreakBefore k then 20 else 30 + 10 * ((k + 9) mod 26))"

section \<open>States of the running component\<close>

text \<open>
  The states the component reaches from its mount through its handlers.  The subject form
  and its button are rendered only while \<open>subjectCount\<close> is truthy, the overlay only while
  \<open>showModal\<close> holds, and the inputs write \<open>name\<close>, \<open>marks\<close> and \<open>creditHours\<close>.
\<close>

fun formField :: "update \<Rightarrow> bool" where
  "formField (SetId v) = False"
| "formField u = True"

inductive reachable :: "platform \<Rightarrow> state \<Rightarrow> bool" for P :: platform where
  mount: "reachable P initialState"
| select: "reachable P s \<Longrightarrow> v \<in> set subjectOptions \<Longrightarrow> reachable P (onSelect v s)"
| edit: "reachable P s \<Longrightarrow> x \<in> set (subjects s) \<Longrightarrow> formField u \<Longrightarrow>
         reachable P (updateSubject (id_s x) u s)"
| calculate: "reachable P s \<Longrightarrow> subjectCount s \<noteq> None \<Longrightarrow>
              reachable P (fst (calculateResult P s))"
| export: "reachable P s \<Longrightarrow> showModal s \<Longrightarrow> reachable P (fst (exportToPDF P now s))"
| dismiss: "reachable P s \<Longrightarrow> showModal s \<Longrightarrow> reachable P (onClose s)"

definition wf_state :: "state \<Rightarrow> bool" where
  "wf_state s \<longleftrightarrow>
     (case subjectCount s of
        None \<Rightarrow> subjects s = []
      | Some n \<Rightarrow> n \<in> set subjectOptions \<and> length (subjects s) = n
          \<and> map id_s (subjects s) = map (\<lambda>index. toString_nat (index + 1)) [0..<n])"

section \<open>Grade calculations\<close>

text \<open>
  \<open>utils/gradeCalculations\<close>, which defines \<open>calculateGPA\<close>, is not among the sources; this
  section follows section 4.1 of the specification instead.
\<close>

datatype gpa_error = InvalidInput | DivisionByZero

type_synonym grade_table = "(real \<times> real) list"

text \<open>
  Modelled from the spec: the grade-point mapping of \<open>calculateGPA\<close>, whose code is
  missing.  A fixed piecewise table of (least marks, grade points) rows, read top-down
  (highest threshold first); marks below every threshold earn 0.  The table is a policy
  parameter.
\<close>

fun gradePoint :: "grade_table \<Rightarrow> real \<Rightarrow> real" where
  "gradePoint [] m = 0"
| "gradePoint ((threshold, points) # rest) m =
     (if m \<ge> threshold then points else gradePoint rest m)"

text \<open>
  Modelled from the spec: \<open>calculateGPA\<close>, whose code is missing.  The
  credit-hour-weighted mean of the grade points, the sum of grade point times credit hours
  divided by the sum of credit hours; it fails on an empty list and on a total of zero
  credit hours.  Numbers are exact reals.
\<close>

definition calculateGPA_spec :: "grade_table \<Rightarrow> subject list \<Rightarrow> gpa_error + real" where
  "calculateGPA_spec tbl subs =
     (if subs = [] then Inl InvalidInput
      else if (\<Sum>x\<leftarrow>subs. creditHours x) = 0 then Inl DivisionByZero
      else Inr ((\<Sum>x\<leftarrow>subs. gradePoint tbl (marks x) * real (creditHours x))
                / real (\<Sum>x\<leftarrow>subs. creditHours x)))"

text \<open>The validity of an entry in the words of section 3 of the specification.\<close>

definition specValid :: "subject \<Rightarrow> bool" where
  "specValid x \<longleftrightarrow> name x \<noteq> [] \<and> 0 \<le> marks x \<and> marks x \<le> 100"

section \<open>An instance of the parameters\<close>

text \<open>
  Modelled from the spec: an instance of the grade functions after the examples of
  section 4.1 (the rows the specification elides are filled in arbitrarily), with
  \<open>toString\<close> and \<open>toFixed\<close> for non-negative numbers and a \<open>jsPDF\<close> that never throws.
  The handlers are evaluated on concrete inputs with it.
\<close>

definition exampleTable :: grade_table where
  "exampleTable = [(85, 4), (80, 37 / 10), (50, 1)]"

definition examplePlatform :: platform where
  "examplePlatform =
     \<lparr>calculateGPA = (\<lambda>subs. case calculateGPA_spec exampleTable subs of
                                Inr g \<Rightarrow> g | Inl e \<Rightarrow> 0),
      getGPAPercentage = (\<lambda>g. g / 4 * 100),
      getLetterGrade = (\<lambda>p. if p \<ge> 90 then js ''A'' else if p \<ge> 80 then js ''B''
                               else if p \<ge> 50 then js ''C'' else js ''F''),
      getRemarks = (\<lambda>p. if p \<ge> 90 then js ''Excellent'' else if p \<ge> 50 then js ''Good''
                            else js ''Needs Improvement''),
      numberToString = (\<lambda>x. toString_nat (nat \<lfloor>x\<rfloor>)),
      toFixed = (\<lambda>x d. toString_nat (nat \<lfloor>x * 10 ^ d + 1 / 2\<rfloor> div 10 ^ d) @ js ''.''
                          @ (let frac = toString_nat (nat \<lfloor>x * 10 ^ d + 1 / 2\<rfloor> mod 10 ^ d)
                             in replicate (d - length frac) 48 @ frac)),
      jsPDF = (\<lambda>doc filename. Inr ())\<rparr>"

definition exampleDate :: date where
  "exampleDate = \<lparr>toLocaleDateString = js ''11/3/2026'',
                   toISOString = js ''2026-11-03T09:30:00.000Z''\<rparr>"

definition exampleSubjects :: "subject list" where
  "exampleSubjects =
     [\<lparr>id_s = js ''1'', name = js ''Math'', marks = 100, creditHours = 3\<rparr>,
      \<lparr>id_s = js ''2'', name = js ''Physics'', marks = 0, creditHours = 1\<rparr>,
      \<lparr>id_s = js ''3'', name = js ''Chemistry'', marks = 72, creditHours = 2\<rparr>,
      \<lparr>id_s = js ''4'', name = js ''English'', marks = 85, creditHours = 4\<rparr>]"

definition exampleState :: state where
  "exampleState =
     \<lparr>open_popover = False, subjectCount = Some 4, subjects = exampleSubjects,
      result = None, showModal = False\<rparr>"

text \<open>The same form with the fourth name a single space, and with the first marks lowered;
  and Scenario B of the specification.\<close>

definition incompleteState :: state where
  "incompleteState = updateSubject (js ''4'') (SetName (js '' '')) exampleState"

definition lowState :: state where
  "lowState = updateSubject (js ''1'') (SetMarks 60) exampleState"

definition scenarioB :: "subject list" where
  "scenarioB =
     [\<lparr>id_s = js ''1'', name = js ''Math'', marks = 100, creditHours = 3\<rparr>,
      \<lparr>id_s = js ''2'', name = js ''Physics'', marks = 0, creditHours = 1\<rparr>]"

text \<open>The example form after a successful calculation, and a \<open>jsPDF\<close> that throws.\<close>

definition resultState :: state where
  "resultState = fst (calculateResult examplePlatform exampleState)"

definition failingPlatform :: platform where
  "failingPlatform = examplePlatform\<lparr>jsPDF := (\<lambda>doc filename. Inl (js ''Error''))\<rparr>"

text \<open>\<open>yPosition\<close> at the head of round \<open>k\<close> of the loop over the subjects, and the calls that
  round makes on the document.\<close>

definition yPositionAt :: "nat \<Rightarrow> nat" where
  "yPositionAt k = 30 + 10 * ((k + 9) mod 26)"

definition drawLine :: "platform \<Rightarrow> nat \<times> subject \<Rightarrow> pdf_op list" where
  "drawLine P entry =
     (case entry of (k, sub) \<Rightarrow>
        (if pageBreakBefore k then [AddPage] else [])
        @ [Text (subjectLine P k sub) 30 (lineY k)])"

section \<open>Editing the form\<close>

lemma toString_nat_digit: "n < 10 \<Longrightarrow> toString_nat n = [48 + n]"
  by (simp add: toString_nat.simps)


lemma updateSubject_absent:
  assumes "i \<notin> id_s ` set (subjects s)"
  shows "updateSubject i u s = s"
proof -
  have "map (\<lambda>subject. if id_s subject = i then setField u subject else subject) (subjects s)
        = map (\<lambda>subject. subject) (subjects s)"
    using assms by (intro map_cong) auto
  then show ?thesis by (simp add: updateSubject_def)
qed

lemma distinct_ids_unique:
  assumes "distinct (map id_s xs)" "k < length xs" "j < length xs"
    and "id_s (xs ! k) = i" "id_s (xs ! j) = i"
  shows "k = j"
  using assms by (metis distinct_conv_nth length_map nth_map)

text \<open>
  C6: \<open>updateSubject(id, field, value)\<close> keeps the length and the order of the list; the
  entry at each position is the old one, with the named field replaced by the value as
  given (whatever the value) when its id matches and untouched otherwise; the other three
  fields of a matched entry keep their values; when the ids are distinct at most one
  position matches; when no entry has the id the state is unchanged; and no other part of
  the component state changes.
\<close>

theorem updateSubject_frame:
  "length (subjects (updateSubject i u s)) = length (subjects s)
   \<and> (\<forall>k < length (subjects s).
         subjects (updateSubject i u s) ! k =
           (if id_s (subjects s ! k) = i then setField u (subjects s ! k) else subjects s ! k))
   \<and> (distinct (map id_s (subjects s)) \<longrightarrow>
         (\<forall>k < length (subjects s). \<forall>j < length (subjects s).
            id_s (subjects s ! k) = i \<and> id_s (subjects s ! j) = i \<longrightarrow> k = j))
   \<and> (i \<notin> id_s ` set (subjects s) \<longrightarrow> updateSubject i u s = s)
   \<and> setField (SetId a) x =
        \<lparr>id_s = a, name = name x, marks = marks x, creditHours = creditHours x\<rparr>
   \<and> setField (SetName a) x =
        \<lparr>id_s = id_s x, name = a, marks = marks x, creditHours = creditHours x\<rparr>
   \<and> setField (SetMarks m) x =
        \<lparr>id_s = id_s x, name = name x, marks = m, creditHours = creditHours x\<rparr>
   \<and> setField (SetCreditHours c) x =
        \<lparr>id_s = id_s x, name = name x, marks = marks x, creditHours = c\<rparr>
   \<and> subjectCount (updateSubject i u s) = subjectCount s
   \<and> result (updateSubject i u s) = result s
   \<and> showModal (updateSubject i u s) = showModal s
   \<and> open_popover (updateSubject i u s) = open_popover s"
  using updateSubject_absent [of i s u] distinct_ids_unique [of "subjects s" _ _ i]
  by (simp add: updateSubject_def)

theorem updateSubject_frame_witness:
  "subjects (updateSubject (js ''2'') (SetMarks 150) exampleState) =
     [\<lparr>id_s = js ''1'', name = js ''Math'', marks = 100, creditHours = 3\<rparr>,
      \<lparr>id_s = js ''2'', name = js ''Physics'', marks = 150, creditHours = 1\<rparr>,
      \<lparr>id_s = js ''3'', name = js ''Chemistry'', marks = 72, creditHours = 2\<rparr>,
      \<lparr>id_s = js ''4'', name = js ''English'', marks = 85, creditHours = 4\<rparr>]
   \<and> distinct (map id_s (subjects exampleState))
   \<and> js ''9'' \<notin> id_s ` set (subjects exampleState)
   \<and> updateSubject (js ''9'') (SetMarks 150) exampleState = exampleState"
  using updateSubject_frame [of "js ''2''" "SetMarks 150" exampleState]
    updateSubject_frame [of "js ''9''" "SetMarks 150" exampleState]
  by (simp add: exampleState_def exampleSubjects_def js_def updateSubject_def)

section \<open>Choosing the number of subjects\<close>

text \<open>
  C5: the subject count is set through \<open>onSelect\<close>, which sets it to \<open>n\<close> exactly when the
  current count is not \<open>n\<close>; the effect then runs, and the list becomes \<open>n\<close> entries, the
  \<open>k\<close>-th (from 0) with id the decimal digits of \<open>k + 1\<close>, empty name, marks 0 and 1 credit
  hour, whatever the list held before.  Setting the count to \<open>null\<close> or to 0 empties the
  list.
\<close>

theorem setSubjectCount_fresh:
  "(subjectCount s \<noteq> Some n \<longrightarrow>
      subjectCount (onSelect n s) = Some n
      \<and> length (subjects (onSelect n s)) = n
      \<and> (\<forall>k < n. subjects (onSelect n s) ! k =
            \<lparr>id_s = toString_nat (k + 1), name = [], marks = 0, creditHours = 1\<rparr>))
   \<and> (subjectCount s \<noteq> None \<longrightarrow>
        subjectCount (setSubjectCount None s) = None \<and> subjects (setSubjectCount None s) = [])
   \<and> (subjectCount s \<noteq> Some 0 \<longrightarrow>
        subjectCount (setSubjectCount (Some 0) s) = Some 0
        \<and> subjects (setSubjectCount (Some 0) s) = [])"
  by (simp add: onSelect_def setSubjectCount_def subjectCountEffect_def)

theorem setSubjectCount_fresh_witness:
  "subjectCount exampleState \<noteq> Some 5
   \<and> subjectCount (onSelect 5 exampleState) = Some 5
   \<and> subjects (onSelect 5 exampleState) =
       [\<lparr>id_s = js ''1'', name = [], marks = 0, creditHours = 1\<rparr>,
        \<lparr>id_s = js ''2'', name = [], marks = 0, creditHours = 1\<rparr>,
        \<lparr>id_s = js ''3'', name = [], marks = 0, creditHours = 1\<rparr>,
        \<lparr>id_s = js ''4'', name = [], marks = 0, creditHours = 1\<rparr>,
        \<lparr>id_s = js ''5'', name = [], marks = 0, creditHours = 1\<rparr>]
   \<and> subjectCount exampleState \<noteq> None
   \<and> subjects (setSubjectCount None exampleState) = []"
proof -
  have n: "subjectCount exampleState \<noteq> Some 5" "subjectCount exampleState \<noteq> None"
    by (simp_all add: exampleState_def)
  have "subjects (onSelect 5 exampleState) =
          map (\<lambda>k. \<lparr>id_s = toString_nat (k + 1), name = [], marks = 0, creditHours = 1\<rparr>) [0..<5]"
    using setSubjectCount_fresh [of exampleState 5] n
    by (intro nth_equalityI) simp_all
  then have "subjects (onSelect 5 exampleState) =
       [\<lparr>id_s = js ''1'', name = [], marks = 0, creditHours = 1\<rparr>,
        \<lparr>id_s = js ''2'', name = [], marks = 0, creditHours = 1\<rparr>,
        \<lparr>id_s = js ''3'', name = [], marks = 0, creditHours = 1\<rparr>,
        \<lparr>id_s = js ''4'', name = [], marks = 0, creditHours = 1\<rparr>,
        \<lparr>id_s = js ''5'', name = [], marks = 0, creditHours = 1\<rparr>]"
    by (simp add: upt_rec toString_nat.simps js_def)
  then show ?thesis
    using setSubjectCount_fresh [of exampleState 5] n by simp
qed

text \<open>
  C10: selecting the option whose value is the current count sets the count to \<open>null\<close>,
  and the effect empties the subject list: what was entered is gone.
\<close>

theorem onSelect_current_clears:
  assumes "subjectCount s = Some v"
  shows "subjectCount (onSelect v s) = None \<and> subjects (onSelect v s) = []"
  using assms by (simp add: onSelect_def setSubjectCount_def subjectCountEffect_def)

theorem onSelect_current_clears_witness:
  "subjectCount exampleState = Some 4 \<and> subjects exampleState \<noteq> []
   \<and> subjectCount (onSelect 4 exampleState) = None \<and> subjects (onSelect 4 exampleState) = []"
  using onSelect_current_clears [of exampleState 4]
  by (simp add: exampleState_def exampleSubjects_def)

section \<open>Validation and calculation\<close>

lemma validSubjects_example: "validSubjects exampleState = exampleSubjects"
  by (simp add: validSubjects_def exampleState_def exampleSubjects_def trim_def js_def
      isWhiteSpace_def)

lemma calculateGPA_example: "calculateGPA examplePlatform exampleSubjects = 3"
  by (simp add: examplePlatform_def calculateGPA_spec_def exampleSubjects_def exampleTable_def)

lemma calculateResult_example:
  "calculateResult examplePlatform exampleState =
     (exampleState\<lparr>result := Some \<lparr>gpa = 3, grade = js ''C'', remarks = js ''Good''\<rparr>,
                     showModal := True\<rparr>,
      [SetTimeout (TriggerConfetti 3) 500])"
proof -
  have "length (validSubjects exampleState) = 4" "subjectCount exampleState = Some 4"
    by (simp_all add: validSubjects_example) (simp_all add: exampleSubjects_def exampleState_def)
  then show ?thesis
    by (simp add: calculateResult_def validSubjects_example calculateGPA_example)
      (simp add: examplePlatform_def)
qed

lemma validSubjects_incomplete: "length (validSubjects incompleteState) = 3"
  by (simp add: incompleteState_def updateSubject_def validSubjects_def exampleState_def
      exampleSubjects_def trim_def js_def isWhiteSpace_def)

lemma calculateResult_incomplete:
  "calculateResult P incompleteState = (incompleteState, [incompleteData])"
  using validSubjects_incomplete
  by (simp add: calculateResult_def)
    (simp add: incompleteState_def updateSubject_def exampleState_def)

lemma calculateResult_empty:
  "calculateResult P (onSelect 4 initialState) = (onSelect 4 initialState, [invalidInput])"
  by (simp add: calculateResult_def validSubjects_def onSelect_def setSubjectCount_def
      subjectCountEffect_def initialState_def trim_def)

lemma validSubjects_low:
  "validSubjects lowState = subjects lowState" "length (subjects lowState) = 4"
  "subjectCount lowState = Some 4"
  "calculateGPA examplePlatform (subjects lowState) = 21 / 10"
  by (simp_all add: lowState_def updateSubject_def validSubjects_def exampleState_def
      exampleSubjects_def trim_def js_def isWhiteSpace_def examplePlatform_def
      calculateGPA_spec_def exampleTable_def)

lemma toasts_distinct: "invalidInput \<noteq> incompleteData"
  by (simp add: invalidInput_def incompleteData_def js_def)

text \<open>\<open>name.trim() !== ''\<close> holds exactly when the name has a character that is not
  whitespace.\<close>

lemma trim_empty_iff: "trim s = [] \<longleftrightarrow> (\<forall>c \<in> set s. isWhiteSpace c)"
proof -
  have "trim s = [] \<longleftrightarrow> dropWhile isWhiteSpace (rev (dropWhile isWhiteSpace s)) = []"
    by (simp add: trim_def)
  also have "\<dots> \<longleftrightarrow> (\<forall>c \<in> set (dropWhile isWhiteSpace s). isWhiteSpace c)"
    by (simp add: dropWhile_eq_Nil_conv)
  also have "\<dots> \<longleftrightarrow> dropWhile isWhiteSpace s = []"
    by (metis dropWhile_eq_Nil_conv dropWhile_idem)
  also have "\<dots> \<longleftrightarrow> (\<forall>c \<in> set s. isWhiteSpace c)"
    by (simp add: dropWhile_eq_Nil_conv)
  finally show ?thesis .
qed

lemma filter_all_of_length:
  assumes "length (filter p xs) = length xs"
  shows "filter p xs = xs"
  using assms by (metis filter_True length_filter_less less_irrefl_nat filter_id_conv)

text \<open>
  C2, as stated, fails: with four entries, all with marks in range and the fourth named by
  a single space, every entry has a non-empty name, so the valid subset in the claim's sense
  has \<open>subjectCount\<close> entries; yet \<open>calculateResult\<close> reports Incomplete Data, because it
  trims the name before comparing it with the empty string.
\<close>

theorem calculateResult_spec_valid_counterexample:
  "filter specValid (subjects incompleteState) = subjects incompleteState
   \<and> Some (length (filter specValid (subjects incompleteState))) = subjectCount incompleteState
   \<and> calculateResult examplePlatform incompleteState = (incompleteState, [incompleteData])"
  by (simp add: calculateResult_incomplete)
    (simp add: incompleteState_def updateSubject_def exampleState_def exampleSubjects_def
      specValid_def js_def)

text \<open>
  C2, amended: the valid subset is the entries whose name has a character that is not
  whitespace and whose marks are in [0, 100].  \<open>calculateResult\<close> reports Invalid Input
  (EmptyInput) exactly when the valid subset is empty, and Incomplete Data exactly when it
  is non-empty and its size is not \<open>subjectCount\<close>; otherwise it stores the Result computed
  from the valid subset, opens the overlay and schedules the confetti timer, and the valid
  subset is the full list whenever the list has \<open>subjectCount\<close> entries.
\<close>

theorem calculateResult_outcomes:
  "set (validSubjects s) =
     {x \<in> set (subjects s).
        (\<exists>c \<in> set (name x). \<not> isWhiteSpace c) \<and> 0 \<le> marks x \<and> marks x \<le> 100}
   \<and> (snd (calculateResult P s) = [invalidInput] \<longleftrightarrow> validSubjects s = [])
   \<and> (snd (calculateResult P s) = [incompleteData] \<longleftrightarrow>
        validSubjects s \<noteq> [] \<and> Some (length (validSubjects s)) \<noteq> subjectCount s)
   \<and> (validSubjects s \<noteq> [] \<and> Some (length (validSubjects s)) = subjectCount s \<longrightarrow>
        calculateResult P s =
          (s\<lparr>result := Some \<lparr>gpa = calculateGPA P (validSubjects s),
                 grade = getLetterGrade P (getGPAPercentage P (calculateGPA P (validSubjects s))),
                 remarks = getRemarks P (getGPAPercentage P (calculateGPA P (validSubjects s)))\<rparr>,
              showModal := True\<rparr>,
           [SetTimeout (TriggerConfetti (calculateGPA P (validSubjects s))) 500])
        \<and> (subjectCount s = Some (length (subjects s)) \<longrightarrow> validSubjects s = subjects s))"
proof -
  have v: "set (validSubjects s) =
     {x \<in> set (subjects s).
        (\<exists>c \<in> set (name x). \<not> isWhiteSpace c) \<and> 0 \<le> marks x \<and> marks x \<le> 100}"
    by (auto simp add: validSubjects_def trim_empty_iff)
  have full: "validSubjects s = subjects s"
    if "Some (length (validSubjects s)) = subjectCount s"
      "subjectCount s = Some (length (subjects s))"
    using that filter_all_of_length [of _ "subjects s"] by (simp add: validSubjects_def)
  have e: "snd (calculateResult P s) = [invalidInput] \<longleftrightarrow> validSubjects s = []"
    using toasts_distinct
    by (auto simp add: calculateResult_def Let_def invalidInput_def incompleteData_def)
  have i: "snd (calculateResult P s) = [incompleteData] \<longleftrightarrow>
        validSubjects s \<noteq> [] \<and> Some (length (validSubjects s)) \<noteq> subjectCount s"
    using toasts_distinct
    by (auto simp add: calculateResult_def Let_def invalidInput_def incompleteData_def)
  have ok: "calculateResult P s =
          (s\<lparr>result := Some \<lparr>gpa = calculateGPA P (validSubjects s),
                 grade = getLetterGrade P (getGPAPercentage P (calculateGPA P (validSubjects s))),
                 remarks = getRemarks P (getGPAPercentage P (calculateGPA P (validSubjects s)))\<rparr>,
              showModal := True\<rparr>,
           [SetTimeout (TriggerConfetti (calculateGPA P (validSubjects s))) 500])"
    if "validSubjects s \<noteq> []" "Some (length (validSubjects s)) = subjectCount s"
    using that by (simp add: calculateResult_def Let_def)
  show ?thesis
    using v e i ok full by blast
qed

theorem calculateResult_outcomes_witness:
  "validSubjects exampleState = subjects exampleState
   \<and> subjectCount exampleState = Some (length (subjects exampleState))
   \<and> calculateResult examplePlatform exampleState =
       (exampleState\<lparr>result := Some \<lparr>gpa = 3, grade = js ''C'', remarks = js ''Good''\<rparr>,
                       showModal := True\<rparr>,
        [SetTimeout (TriggerConfetti 3) 500])
   \<and> validSubjects (onSelect 4 initialState) = []
   \<and> snd (calculateResult examplePlatform (onSelect 4 initialState)) = [invalidInput]
   \<and> length (validSubjects incompleteState) = 3
   \<and> subjectCount incompleteState = Some 4
   \<and> snd (calculateResult examplePlatform incompleteState) = [incompleteData]"
proof -
  have a: "validSubjects exampleState \<noteq> []"
    "Some (length (validSubjects exampleState)) = subjectCount exampleState"
    "subjectCount exampleState = Some (length (subjects exampleState))"
    by (simp_all add: validSubjects_example) (simp_all add: exampleState_def exampleSubjects_def)
  have b: "validSubjects (onSelect 4 initialState) = []"
    by (simp add: validSubjects_def onSelect_def setSubjectCount_def subjectCountEffect_def
        initialState_def trim_def)
  have c: "subjectCount incompleteState = Some 4"
    by (simp add: incompleteState_def updateSubject_def exampleState_def)
  have incomplete_nonempty: "validSubjects incompleteState \<noteq> []"
    using validSubjects_incomplete by auto
  have d: "getGPAPercentage examplePlatform 3 = 75"
    "getLetterGrade examplePlatform 75 = js ''C''" "getRemarks examplePlatform 75 = js ''Good''"
    by (simp_all add: examplePlatform_def)
  show ?thesis
    using calculateResult_outcomes [of exampleState examplePlatform]
      calculateResult_outcomes [of "onSelect 4 initialState" examplePlatform]
      calculateResult_outcomes [of incompleteState examplePlatform]
      a b c d validSubjects_incomplete incomplete_nonempty
    by (simp add: validSubjects_example calculateGPA_example)
qed

text \<open>
  C3: when \<open>calculateResult\<close> reports Invalid Input or Incomplete Data, the state after the
  call is the state before it: the subject list and the Result are unchanged, and a Result
  that was \<open>null\<close> is still \<open>null\<close>.
\<close>

theorem calculateResult_failure_frame:
  assumes "snd (calculateResult P s) = [invalidInput]
     \<or> snd (calculateResult P s) = [incompleteData]"
  shows "fst (calculateResult P s) = s
     \<and> subjects (fst (calculateResult P s)) = subjects s
     \<and> result (fst (calculateResult P s)) = result s
     \<and> (result s = None \<longrightarrow> result (fst (calculateResult P s)) = None)"
  using assms
  by (simp add: calculateResult_def Let_def invalidInput_def incompleteData_def split: if_splits)

theorem calculateResult_failure_frame_witness:
  "snd (calculateResult examplePlatform incompleteState) = [incompleteData]
   \<and> result incompleteState = None
   \<and> result (fst (calculateResult examplePlatform incompleteState)) = None
   \<and> subjects (fst (calculateResult examplePlatform incompleteState)) = subjects incompleteState
   \<and> snd (calculateResult examplePlatform (onSelect 4 initialState)) = [invalidInput]
   \<and> fst (calculateResult examplePlatform (onSelect 4 initialState)) = onSelect 4 initialState"
  using calculateResult_failure_frame [of examplePlatform incompleteState]
    calculateResult_failure_frame [of examplePlatform "onSelect 4 initialState"]
  by (simp add: calculateResult_incomplete calculateResult_empty)
    (simp add: incompleteState_def updateSubject_def exampleState_def)

text \<open>
  C8: a successful \<open>calculateResult\<close> schedules \<open>triggerConfetti\<close> with the gpa it has just
  stored in the Result.  When the timer fires, in whatever state \<open>s'\<close> the component is by
  then, the state is left as it is; the confetti effect is produced when the gpa is at
  least 3 and nothing is produced when it is below 3.
\<close>

theorem confetti_threshold:
  assumes "validSubjects s \<noteq> []" and "Some (length (validSubjects s)) = subjectCount s"
  shows "map_option gpa (result (fst (calculateResult P s))) =
           Some (calculateGPA P (validSubjects s))
     \<and> snd (calculateResult P s) =
         [SetTimeout (TriggerConfetti (calculateGPA P (validSubjects s))) 500]
     \<and> fst (fire (TriggerConfetti (calculateGPA P (validSubjects s))) s') = s'
     \<and> (calculateGPA P (validSubjects s) \<ge> 3 \<longrightarrow>
          snd (fire (TriggerConfetti (calculateGPA P (validSubjects s))) s') = [Confetti 1000])
     \<and> (calculateGPA P (validSubjects s) < 3 \<longrightarrow>
          snd (fire (TriggerConfetti (calculateGPA P (validSubjects s))) s') = [])"
  using assms by (simp add: calculateResult_def Let_def triggerConfetti_def)

theorem confetti_threshold_witness:
  "snd (calculateResult examplePlatform exampleState) = [SetTimeout (TriggerConfetti 3) 500]
   \<and> fire (TriggerConfetti 3) (fst (calculateResult examplePlatform exampleState)) =
       (fst (calculateResult examplePlatform exampleState), [Confetti 1000])
   \<and> snd (calculateResult examplePlatform lowState) =
       [SetTimeout (TriggerConfetti (21 / 10)) 500]
   \<and> fire (TriggerConfetti (21 / 10)) (fst (calculateResult examplePlatform lowState)) =
       (fst (calculateResult examplePlatform lowState), [])"
proof -
  have a: "validSubjects exampleState \<noteq> []"
    "Some (length (validSubjects exampleState)) = subjectCount exampleState"
    by (simp_all add: validSubjects_example) (simp_all add: exampleState_def exampleSubjects_def)
  have b: "validSubjects lowState \<noteq> []"
    "Some (length (validSubjects lowState)) = subjectCount lowState"
    using validSubjects_low by auto
  show ?thesis
    using confetti_threshold [OF a, of examplePlatform
        "fst (calculateResult examplePlatform exampleState)"]
      confetti_threshold [OF b, of examplePlatform
        "fst (calculateResult examplePlatform lowState)"]
    by (simp add: validSubjects_example calculateGPA_example validSubjects_low prod_eq_iff)
qed

section \<open>Dismissing the overlay\<close>

text \<open>
  C4, as stated, fails: after a successful calculation the overlay is open and a Result is
  stored; \<open>onClose\<close> then leaves that Result in place.
\<close>

theorem onClose_destroys_result_counterexample:
  "result (fst (calculateResult examplePlatform exampleState)) =
     Some \<lparr>gpa = 3, grade = js ''C'', remarks = js ''Good''\<rparr>
   \<and> showModal (fst (calculateResult examplePlatform exampleState))
   \<and> result (onClose (fst (calculateResult examplePlatform exampleState))) \<noteq> None"
  by (simp add: calculateResult_example onClose_def)

text \<open>
  C4, amended: dismissing the overlay (the close button, a click on the backdrop, or the
  Escape key, all of which call \<open>onClose\<close>) closes it and keeps the stored Result, the
  subject list and the subject count as they are.
\<close>

theorem onClose_keeps_result:
  assumes "result s = Some r" and "showModal s"
  shows "showModal (onClose s) = False \<and> result (onClose s) = Some r
     \<and> subjects (onClose s) = subjects s \<and> subjectCount (onClose s) = subjectCount s
     \<and> handleCloseClick s = onClose s \<and> handleBackdropClick True s = onClose s
     \<and> handleEscape (js ''Escape'') s = onClose s"
  using assms
  by (simp add: onClose_def handleCloseClick_def handleBackdropClick_def handleEscape_def)

theorem onClose_keeps_result_witness:
  "result (fst (calculateResult examplePlatform exampleState)) =
     Some \<lparr>gpa = 3, grade = js ''C'', remarks = js ''Good''\<rparr>
   \<and> showModal (fst (calculateResult examplePlatform exampleState))
   \<and> showModal (onClose (fst (calculateResult examplePlatform exampleState))) = False
   \<and> result (onClose (fst (calculateResult examplePlatform exampleState))) =
       Some \<lparr>gpa = 3, grade = js ''C'', remarks = js ''Good''\<rparr>"
  using onClose_keeps_result [of "fst (calculateResult examplePlatform exampleState)"
      "\<lparr>gpa = 3, grade = js ''C'', remarks = js ''Good''\<rparr>"]
  by (simp add: calculateResult_example)

section \<open>The weighted mean\<close>

lemma weighted_sum_bounds:
  assumes "\<forall>x \<in> set subs. 0 \<le> f x \<and> f x \<le> 4"
  shows "0 \<le> (\<Sum>x\<leftarrow>subs. f x * real (creditHours x))
     \<and> (\<Sum>x\<leftarrow>subs. f x * real (creditHours x)) \<le> 4 * real (\<Sum>x\<leftarrow>subs. creditHours x)"
  using assms
proof (induction subs)
  case Nil
  then show ?case by simp
next
  case (Cons x subs)
  have "0 \<le> f x * real (creditHours x)" "f x * real (creditHours x) \<le> 4 * real (creditHours x)"
    using Cons.prems by (simp_all add: mult_right_mono)
  moreover have "0 \<le> (\<Sum>x\<leftarrow>subs. f x * real (creditHours x))
     \<and> (\<Sum>x\<leftarrow>subs. f x * real (creditHours x)) \<le> 4 * real (\<Sum>x\<leftarrow>subs. creditHours x)"
    using Cons by simp
  ultimately show ?case by simp
qed

text \<open>
  C1: for a grade table whose grade points lie in [0, 4] on marks in [0, 100], and a
  non-empty list of subjects that are all valid (non-empty name, marks in [0, 100]) with a
  positive sum of credit hours, \<open>calculateGPA\<close> returns the sum of the grade points weighted
  by credit hours, divided by the sum of the credit hours, and that number lies in [0, 4].
\<close>

theorem calculateGPA_weighted_mean:
  assumes "\<forall>m. 0 \<le> m \<and> m \<le> 100 \<longrightarrow> 0 \<le> gradePoint tbl m \<and> gradePoint tbl m \<le> 4"
    and "subs \<noteq> []"
    and "\<forall>x \<in> set subs. specValid x"
    and "0 < (\<Sum>x\<leftarrow>subs. creditHours x)"
  shows "calculateGPA_spec tbl subs =
           Inr ((\<Sum>x\<leftarrow>subs. gradePoint tbl (marks x) * real (creditHours x))
                / real (\<Sum>x\<leftarrow>subs. creditHours x))
     \<and> 0 \<le> (\<Sum>x\<leftarrow>subs. gradePoint tbl (marks x) * real (creditHours x))
                / real (\<Sum>x\<leftarrow>subs. creditHours x)
     \<and> (\<Sum>x\<leftarrow>subs. gradePoint tbl (marks x) * real (creditHours x))
                / real (\<Sum>x\<leftarrow>subs. creditHours x) \<le> 4"
proof -
  let ?points = "\<Sum>x\<leftarrow>subs. gradePoint tbl (marks x) * real (creditHours x)"
  let ?credits = "real (\<Sum>x\<leftarrow>subs. creditHours x)"
  have "\<forall>x \<in> set subs. 0 \<le> gradePoint tbl (marks x) \<and> gradePoint tbl (marks x) \<le> 4"
    using assms(1,3) by (simp add: specValid_def)
  then have b: "0 \<le> ?points" "?points \<le> 4 * ?credits"
    using weighted_sum_bounds [of subs "\<lambda>x. gradePoint tbl (marks x)"] by simp_all
  have c: "0 < ?credits"
    using assms(4) by simp
  have "0 \<le> ?points / ?credits"
    using b(1) c by simp
  moreover have "?points / ?credits \<le> 4"
    using b(2) c by (simp add: pos_divide_le_eq)
  moreover have "(\<Sum>x\<leftarrow>subs. creditHours x) \<noteq> 0"
    using assms(4) by linarith
  then have "calculateGPA_spec tbl subs = Inr (?points / ?credits)"
    unfolding calculateGPA_spec_def using assms(2) by (simp only: if_False)
  ultimately show ?thesis by simp
qed

theorem calculateGPA_weighted_mean_witness:
  "calculateGPA_spec exampleTable scenarioB = Inr 3
   \<and> calculateGPA_spec exampleTable exampleSubjects = Inr 3"
proof -
  have t: "\<forall>m. 0 \<le> m \<and> m \<le> 100 \<longrightarrow>
      0 \<le> gradePoint exampleTable m \<and> gradePoint exampleTable m \<le> 4"
    by (simp add: exampleTable_def)
  have b: "scenarioB \<noteq> []" "\<forall>x \<in> set scenarioB. specValid x"
    "0 < (\<Sum>x\<leftarrow>scenarioB. creditHours x)"
    by (simp_all add: scenarioB_def specValid_def js_def)
  have e: "exampleSubjects \<noteq> []" "\<forall>x \<in> set exampleSubjects. specValid x"
    "0 < (\<Sum>x\<leftarrow>exampleSubjects. creditHours x)"
    by (simp_all add: exampleSubjects_def specValid_def js_def)
  show ?thesis
    using calculateGPA_weighted_mean [OF t b] calculateGPA_weighted_mean [OF t e]
    by (simp add: scenarioB_def exampleSubjects_def exampleTable_def)
qed

section \<open>Export\<close>

lemma resultState_eq:
  "resultState = exampleState\<lparr>result := Some \<lparr>gpa = 3, grade = js ''C'', remarks = js ''Good''\<rparr>,
                     showModal := True\<rparr>"
  by (simp add: resultState_def calculateResult_example)

text \<open>
  C7: with a Result stored, \<open>exportToPDF\<close> hands the document to \<open>jsPDF\<close>.  If no call
  throws, the document is saved, Export Complete is reported and the overlay is closed
  (\<open>showModal\<close> becomes false).  If a call throws, the error is logged, Export Error is
  reported, and the state is exactly as before: the overlay stays as it was and the Result
  is retained.
\<close>

theorem exportToPDF_outcomes:
  assumes "result s = Some r"
  shows "(jsPDF P (pdfDocument P now r (subjects s)) (pdfFilename now) = Inr u \<longrightarrow>
            fst (exportToPDF P now s) = s\<lparr>showModal := False\<rparr>
            \<and> showModal (fst (exportToPDF P now s)) = False
            \<and> snd (exportToPDF P now s) =
                [Save (pdfDocument P now r (subjects s)) (pdfFilename now), exportComplete])
     \<and> (jsPDF P (pdfDocument P now r (subjects s)) (pdfFilename now) = Inl e \<longrightarrow>
            fst (exportToPDF P now s) = s
            \<and> showModal (fst (exportToPDF P now s)) = showModal s
            \<and> result (fst (exportToPDF P now s)) = Some r
            \<and> snd (exportToPDF P now s) =
                [ConsoleError (js ''Error generating PDF:'') e, exportError])"
  using assms by (simp add: exportToPDF_def)

theorem exportToPDF_outcomes_witness:
  "result resultState = Some \<lparr>gpa = 3, grade = js ''C'', remarks = js ''Good''\<rparr>
   \<and> showModal resultState
   \<and> showModal (fst (exportToPDF examplePlatform exampleDate resultState)) = False
   \<and> snd (exportToPDF examplePlatform exampleDate resultState) =
       [Save (pdfDocument examplePlatform exampleDate
                \<lparr>gpa = 3, grade = js ''C'', remarks = js ''Good''\<rparr> exampleSubjects)
          (js ''GPA_Results_2026-11-03.pdf''),
        exportComplete]
   \<and> exportToPDF failingPlatform exampleDate resultState =
       (resultState, [ConsoleError (js ''Error generating PDF:'') (js ''Error''), exportError])"
proof -
  have r: "result resultState = Some \<lparr>gpa = 3, grade = js ''C'', remarks = js ''Good''\<rparr>"
    "showModal resultState" "subjects resultState = exampleSubjects"
    by (simp_all add: resultState_eq) (simp add: exampleState_def)
  have ok: "jsPDF examplePlatform d f = Inr ()" for d f
    by (simp add: examplePlatform_def)
  have bad: "jsPDF failingPlatform d f = Inl (js ''Error'')" for d f
    by (simp add: failingPlatform_def)
  have f: "pdfFilename exampleDate = js ''GPA_Results_2026-11-03.pdf''"
    by (simp add: pdfFilename_def exampleDate_def js_def)
  show ?thesis
    using exportToPDF_outcomes [OF r(1), of examplePlatform exampleDate "()"] 
      exportToPDF_outcomes [OF r(1), of failingPlatform exampleDate _ "js ''Error''"] r ok bad f
    by (simp add: prod_eq_iff)
qed

lemma shift_mod:
  fixes k :: nat
  shows "(k + 9) mod 26 = (if k mod 26 < 17 then k mod 26 + 9 else k mod 26 - 17)"
proof -
  have e: "(k + 9) mod 26 = (k mod 26 + 9) mod 26"
    by (simp add: mod_add_left_eq)
  have l: "k mod 26 < 26"
    by simp
  show ?thesis
  proof (cases "k mod 26 < 17")
    case True
    then show ?thesis using e by simp
  next
    case False
    then have "(k mod 26 + 9) mod 26 = (k mod 26 + 9 - 26) mod 26"
      by (intro le_mod_geq) simp
    also have "\<dots> = k mod 26 + 9 - 26"
      using l by (intro mod_less) linarith
    finally show ?thesis using e False by simp
  qed
qed

lemma page_break_iff: "pageBreakBefore k \<longleftrightarrow> yPositionAt k > 270"
proof -
  have "k mod 26 < 26" by simp
  then show ?thesis
    unfolding pageBreakBefore_def yPositionAt_def shift_mod by (simp split: if_splits) linarith
qed

lemma lineY_eq: "lineY k = (if yPositionAt k > 270 then 20 else yPositionAt k)"
  unfolding lineY_def page_break_iff yPositionAt_def by simp

lemma next_yPosition:
  "yPositionAt (Suc k) = (if yPositionAt k > 270 then 20 + 10 else yPositionAt k + 10)"
proof -
  define m where "m = (k + 9) mod 26"
  have l: "m < 26"
    by (simp add: m_def)
  have "(Suc k + 9) mod 26 = (if Suc m = 26 then 0 else Suc m)"
    unfolding m_def using mod_Suc [of "k + 9" 26] by simp
  then have "yPositionAt (Suc k) = 30 + 10 * (if Suc m = 26 then 0 else Suc m)"
    by (simp add: yPositionAt_def)
  moreover have "yPositionAt k = 30 + 10 * m"
    by (simp add: yPositionAt_def m_def)
  ultimately show ?thesis
    using l by (simp split: if_splits)
qed

lemma forEachSubject_step:
  "forEachSubject P (doc, yPositionAt k) (k, x) = (doc @ drawLine P (k, x), yPositionAt (Suc k))"
  by (simp add: forEachSubject_def drawLine_def lineY_eq page_break_iff next_yPosition)

lemma forEach_lines:
  "foldl (forEachSubject P) (doc, yPositionAt k) (enumerate k subs) =
     (doc @ concat (map (drawLine P) (enumerate k subs)), yPositionAt (k + length subs))"
proof (induction subs arbitrary: doc k)
  case Nil
  then show ?case by simp
next
  case (Cons x subs)
  have "foldl (forEachSubject P) (doc, yPositionAt k) (enumerate k (x # subs)) =
      foldl (forEachSubject P) (doc @ drawLine P (k, x), yPositionAt (Suc k))
        (enumerate (Suc k) subs)"
    by (simp add: forEachSubject_step)
  also have "\<dots> = ((doc @ drawLine P (k, x)) @ concat (map (drawLine P) (enumerate (Suc k) subs)),
      yPositionAt (Suc k + length subs))"
    by (rule Cons.IH)
  also have "\<dots> = (doc @ concat (map (drawLine P) (enumerate k (x # subs))),
      yPositionAt (k + length (x # subs)))"
    by simp
  finally show ?case .
qed

lemma lineY_le: "20 \<le> lineY k \<and> lineY k \<le> 270"
  unfolding lineY_eq yPositionAt_def by simp


lemma pdfFooter_append:
  "pdfFooter now (doc, y) = doc @ pdfFooter now ([], y)"
  by (simp add: pdfFooter_def)

lemma pdfDocument_parts:
  "pdfDocument P now r subs =
     pdfHeader P r @ concat (map (drawLine P) (enumerate 0 subs))
       @ pdfFooter now ([], yPositionAt (length subs))"
proof -
  have "yPositionAt 0 = 120"
    by (simp add: yPositionAt_def)
  then have "foldl (forEachSubject P) (pdfHeader P r, 120) (enumerate 0 subs) =
      (pdfHeader P r @ concat (map (drawLine P) (enumerate 0 subs)), yPositionAt (length subs))"
    using forEach_lines [of P "pdfHeader P r" 0 subs] by simp
  then show ?thesis
    using pdfFooter_append [of now "pdfHeader P r @ concat (map (drawLine P) (enumerate 0 subs))"]
    by (simp add: pdfDocument_def)
qed

lemma texts_append: "texts (a @ b) = texts a @ texts b"
  by (induction a rule: texts.induct) simp_all

lemma texts_lines:
  "texts (concat (map (drawLine P) (enumerate k subs))) =
     map (\<lambda>(j, sub). subjectLine P j sub) (enumerate k subs)"
  by (induction subs arbitrary: k) (simp_all add: drawLine_def texts_append)

lemma texts_header:
  "texts (pdfHeader P r) =
     [js ''UoH GPA Calculator Results'', js ''Results:'', js ''GPA: '' @ toFixed P (gpa r) 2,
      js ''Grade: '' @ grade r, js ''Remarks: '' @ remarks r, js ''Subject Details:'']"
  by (simp add: pdfHeader_def)

lemma texts_footer:
  "texts (pdfFooter now ([], y)) = [js ''Generated on: '' @ toLocaleDateString now, preparedBy]"
  by (simp add: pdfFooter_def)

lemma header_ys: "Text t x y \<in> set (pdfHeader P r) \<Longrightarrow> y \<le> 280"
  by (auto simp add: pdfHeader_def)

lemma footer_ys: "Text t x y \<in> set (pdfFooter now ([], y0)) \<Longrightarrow> y \<le> 280"
  by (auto simp add: pdfFooter_def split: if_splits)

lemma lines_ys:
  assumes "Text t x y \<in> set (concat (map (drawLine P) entries))"
  shows "y \<le> 280"
proof -
  obtain k sub where "Text t x y \<in> set (drawLine P (k, sub))"
    using assms by auto
  then have "y = lineY k"
    by (auto simp add: drawLine_def split: if_splits)
  then show ?thesis
    using lineY_le [of k] by simp
qed

text \<open>
  C9: when a Result is stored and \<open>jsPDF\<close> does not throw, the saved document draws, in
  this order, the title, \<open>Results:\<close>, the GPA as \<open>toFixed(2)\<close> prints it, the grade, the
  remarks, \<open>Subject Details:\<close>, one line
  \<open><index>. <name>: <marks>/100 (<creditHours> credit hours)\<close> per subject in the order of
  the subject list, and the footer with the generation date.  A page is added before the
  line of index \<open>k\<close> (from 0) exactly when \<open>k mod 26 = 16\<close>, that is when the line would
  otherwise be drawn below 270; every subject line is drawn between 20 and 270, and no
  text of the document below 280.
\<close>

theorem exportToPDF_document:
  assumes "result s = Some r"
    and "jsPDF P (pdfDocument P now r (subjects s)) (pdfFilename now) = Inr u"
  shows "snd (exportToPDF P now s) =
           [Save (pdfDocument P now r (subjects s)) (pdfFilename now), exportComplete]
     \<and> texts (pdfDocument P now r (subjects s)) =
         [js ''UoH GPA Calculator Results'', js ''Results:'',
          js ''GPA: '' @ toFixed P (gpa r) 2, js ''Grade: '' @ grade r,
          js ''Remarks: '' @ remarks r, js ''Subject Details:'']
         @ map (\<lambda>(k, sub). toString_nat (k + 1) @ js ''. '' @ name sub @ js '': ''
                   @ numberToString P (marks sub) @ js ''/100 (''
                   @ toString_nat (creditHours sub) @ js '' credit hours)'')
             (enumerate 0 (subjects s))
         @ [js ''Generated on: '' @ toLocaleDateString now, preparedBy]
     \<and> pdfDocument P now r (subjects s) =
         pdfHeader P r
         @ concat (map (\<lambda>(k, sub). (if pageBreakBefore k then [AddPage] else [])
                          @ [Text (subjectLine P k sub) 30 (lineY k)])
             (enumerate 0 (subjects s)))
         @ pdfFooter now ([], yPositionAt (length (subjects s)))
     \<and> (\<forall>k. 20 \<le> lineY k \<and> lineY k \<le> 270)
     \<and> (\<forall>t x y. Text t x y \<in> set (pdfDocument P now r (subjects s)) \<longrightarrow> y \<le> 280)"
proof -
  have d: "drawLine P = (\<lambda>(k, sub). (if pageBreakBefore k then [AddPage] else [])
                          @ [Text (subjectLine P k sub) 30 (lineY k)])"
    by (auto simp add: drawLine_def fun_eq_iff)
  have l: "(\<lambda>(k, sub). subjectLine P k sub) =
      (\<lambda>(k, sub). toString_nat (k + 1) @ js ''. '' @ name sub @ js '': ''
                   @ numberToString P (marks sub) @ js ''/100 (''
                   @ toString_nat (creditHours sub) @ js '' credit hours)'')"
    by (simp add: subjectLine_def fun_eq_iff)
  have 1: "snd (exportToPDF P now s) =
           [Save (pdfDocument P now r (subjects s)) (pdfFilename now), exportComplete]"
    using assms by (simp add: exportToPDF_def)
  have 2: "texts (pdfDocument P now r (subjects s)) =
         [js ''UoH GPA Calculator Results'', js ''Results:'',
          js ''GPA: '' @ toFixed P (gpa r) 2, js ''Grade: '' @ grade r,
          js ''Remarks: '' @ remarks r, js ''Subject Details:'']
         @ map (\<lambda>(k, sub). subjectLine P k sub) (enumerate 0 (subjects s))
         @ [js ''Generated on: '' @ toLocaleDateString now, preparedBy]"
    by (simp only: pdfDocument_parts texts_append texts_header texts_lines texts_footer)
  have 3: "pdfDocument P now r (subjects s) =
         pdfHeader P r @ concat (map (drawLine P) (enumerate 0 (subjects s)))
         @ pdfFooter now ([], yPositionAt (length (subjects s)))"
    by (rule pdfDocument_parts)
  have 5: "y \<le> 280" if "Text t x y \<in> set (pdfDocument P now r (subjects s))" for t x y
    using that header_ys lines_ys footer_ys unfolding pdfDocument_parts by (simp only: set_append Un_iff) blast
  show ?thesis
    using 1 2 3 5 lineY_le unfolding d l by blast
qed

lemma toString_nat_example:
  "toString_nat 100 = js ''100''" "toString_nat 72 = js ''72''" "toString_nat 85 = js ''85''"
  "toString_nat 300 = js ''300''"
  by (simp_all add: toString_nat.simps js_def)

lemma example_numbers:
  "toFixed examplePlatform 3 2 = js ''3.00''"
  "numberToString examplePlatform 100 = js ''100''"
  "numberToString examplePlatform 0 = js ''0''"
  "numberToString examplePlatform 72 = js ''72''"
  "numberToString examplePlatform 85 = js ''85''"
proof -
  have "nat \<lfloor>(3::real) * 10 ^ 2 + 1 / 2\<rfloor> = 300"
    by simp
  then show "toFixed examplePlatform 3 2 = js ''3.00''"
    by (simp add: examplePlatform_def toString_nat_digit) (simp add: js_def)
  show "numberToString examplePlatform 100 = js ''100''"
    "numberToString examplePlatform 0 = js ''0''"
    "numberToString examplePlatform 72 = js ''72''"
    "numberToString examplePlatform 85 = js ''85''"
    by (simp_all add: examplePlatform_def toString_nat_example toString_nat_digit)
      (simp add: js_def)
qed

theorem exportToPDF_document_witness:
  "result resultState = Some \<lparr>gpa = 3, grade = js ''C'', remarks = js ''Good''\<rparr>
   \<and> jsPDF examplePlatform
        (pdfDocument examplePlatform exampleDate
           \<lparr>gpa = 3, grade = js ''C'', remarks = js ''Good''\<rparr> (subjects resultState))
        (pdfFilename exampleDate) = Inr ()
   \<and> texts (pdfDocument examplePlatform exampleDate
        \<lparr>gpa = 3, grade = js ''C'', remarks = js ''Good''\<rparr> (subjects resultState)) =
       [js ''UoH GPA Calculator Results'', js ''Results:'', js ''GPA: 3.00'', js ''Grade: C'',
        js ''Remarks: Good'', js ''Subject Details:'',
        js ''1. Math: 100/100 (3 credit hours)'',
        js ''2. Physics: 0/100 (1 credit hours)'',
        js ''3. Chemistry: 72/100 (2 credit hours)'',
        js ''4. English: 85/100 (4 credit hours)'',
        js ''Generated on: 11/3/2026'', preparedBy]
   \<and> lineY 0 = 120 \<and> lineY 15 = 270 \<and> pageBreakBefore 16 \<and> lineY 16 = 20"
proof -
  have r: "result resultState = Some \<lparr>gpa = 3, grade = js ''C'', remarks = js ''Good''\<rparr>"
    "subjects resultState = exampleSubjects"
    by (simp_all add: resultState_eq) (simp add: exampleState_def)
  have ok: "jsPDF examplePlatform d f = Inr ()" for d f
    by (simp add: examplePlatform_def)
  have e: "enumerate 0 exampleSubjects =
      [(0, exampleSubjects ! 0), (1, exampleSubjects ! 1), (2, exampleSubjects ! 2),
       (3, exampleSubjects ! 3)]"
    by (simp add: exampleSubjects_def)
  have y: "lineY 0 = 120" "lineY 15 = 270" "pageBreakBefore 16" "lineY 16 = 20"
    by (simp_all add: lineY_def pageBreakBefore_def)
  have lines: "map (\<lambda>(k, sub). toString_nat (k + 1) @ js ''. '' @ name sub @ js '': ''
                   @ numberToString examplePlatform (marks sub) @ js ''/100 (''
                   @ toString_nat (creditHours sub) @ js '' credit hours)'')
             (enumerate 0 exampleSubjects) =
       [js ''1. Math: 100/100 (3 credit hours)'',
        js ''2. Physics: 0/100 (1 credit hours)'',
        js ''3. Chemistry: 72/100 (2 credit hours)'',
        js ''4. English: 85/100 (4 credit hours)'']"
    unfolding e
    by (simp add: exampleSubjects_def example_numbers toString_nat_digit) (simp add: js_def)
  have hd: "js ''GPA: '' @ toFixed examplePlatform 3 2 = js ''GPA: 3.00''"
    "js ''Grade: '' @ js ''C'' = js ''Grade: C''"
    "js ''Remarks: '' @ js ''Good'' = js ''Remarks: Good''"
    "js ''Generated on: '' @ toLocaleDateString exampleDate = js ''Generated on: 11/3/2026''"
    by (simp_all add: example_numbers exampleDate_def) (simp_all add: js_def)
  have "texts (pdfDocument examplePlatform exampleDate
        \<lparr>gpa = 3, grade = js ''C'', remarks = js ''Good''\<rparr> (subjects resultState)) =
         [js ''UoH GPA Calculator Results'', js ''Results:'',
          js ''GPA: '' @ toFixed examplePlatform
             (gpa \<lparr>gpa = 3, grade = js ''C'', remarks = js ''Good''\<rparr>) 2,
          js ''Grade: '' @ grade \<lparr>gpa = 3, grade = js ''C'', remarks = js ''Good''\<rparr>,
          js ''Remarks: '' @ remarks \<lparr>gpa = 3, grade = js ''C'', remarks = js ''Good''\<rparr>,
          js ''Subject Details:'']
         @ map (\<lambda>(k, sub). toString_nat (k + 1) @ js ''. '' @ name sub @ js '': ''
                   @ numberToString examplePlatform (marks sub) @ js ''/100 (''
                   @ toString_nat (creditHours sub) @ js '' credit hours)'')
             (enumerate 0 (subjects resultState))
         @ [js ''Generated on: '' @ toLocaleDateString exampleDate, preparedBy]"
    using exportToPDF_document [OF r(1) ok, of exampleDate] by (rule conjunct1 [OF conjunct2])
  then have "texts (pdfDocument examplePlatform exampleDate
        \<lparr>gpa = 3, grade = js ''C'', remarks = js ''Good''\<rparr> (subjects resultState)) =
       [js ''UoH GPA Calculator Results'', js ''Results:'', js ''GPA: 3.00'', js ''Grade: C'',
        js ''Remarks: Good'', js ''Subject Details:'',
        js ''1. Math: 100/100 (3 credit hours)'',
        js ''2. Physics: 0/100 (1 credit hours)'',
        js ''3. Chemistry: 72/100 (2 credit hours)'',
        js ''4. English: 85/100 (4 credit hours)'',
        js ''Generated on: 11/3/2026'', preparedBy]"
    unfolding r(2) lines by (simp add: hd)
  then show ?thesis
    using r(1) ok y by simp
qed

section \<open>Invariants of the running component\<close>

text \<open>
  In every state the component reaches, the list has \<open>subjectCount\<close> entries (none when
  the count is \<open>null\<close>) with the ids \<open>1\<close> to \<open>n\<close> in order, which are distinct.
\<close>

lemma setField_form_id: "formField u \<Longrightarrow> id_s (setField u x) = id_s x"
  by (cases u) simp_all

lemma updateSubject_ids:
  assumes "formField u"
  shows "map id_s (subjects (updateSubject i u s)) = map id_s (subjects s)"
  using assms by (simp add: updateSubject_def setField_form_id)

lemma onSelect_wf:
  assumes "v \<in> set subjectOptions"
  shows "wf_state (onSelect v s)"
  using assms
  by (auto simp add: wf_state_def onSelect_def setSubjectCount_def subjectCountEffect_def
      subjectOptions_def)

lemma reachable_wf_state: "reachable P s \<Longrightarrow> wf_state s"
proof (induction rule: reachable.induct)
  case mount
  then show ?case by (simp add: wf_state_def initialState_def)
next
  case (select s v)
  then show ?case by (simp add: onSelect_wf)
next
  case (edit s x u)
  have "length (subjects (updateSubject (id_s x) u s)) = length (subjects s)"
    "subjectCount (updateSubject (id_s x) u s) = subjectCount s"
    by (simp_all add: updateSubject_def)
  then show ?case
    using edit.IH updateSubject_ids [OF edit.hyps(3), of "id_s x" s]
    by (simp add: wf_state_def split: option.splits)
next
  case (calculate s)
  then show ?case
    by (simp add: wf_state_def calculateResult_def Let_def split: option.splits)
next
  case (export s now)
  then show ?case
    by (simp add: wf_state_def exportToPDF_def split: option.splits sum.splits)
next
  case (dismiss s)
  then show ?case by (simp add: wf_state_def onClose_def split: option.splits)
qed

lemma reachable_length:
  assumes "reachable P s" and "subjectCount s \<noteq> None"
  shows "subjectCount s = Some (length (subjects s))"
  using reachable_wf_state [OF assms(1)] assms(2) by (auto simp add: wf_state_def)

lemma reachable_distinct_ids:
  assumes "reachable P s"
  shows "distinct (map id_s (subjects s))"
proof (cases "subjectCount s")
  case None
  then show ?thesis
    using reachable_wf_state [OF assms] by (simp add: wf_state_def)
next
  case (Some n)
  then have n: "n \<in> {4, 5, 6, 7, 8}"
    and ids: "map id_s (subjects s) = map (\<lambda>index. toString_nat (index + 1)) [0..<n]"
    using reachable_wf_state [OF assms] by (simp_all add: wf_state_def subjectOptions_def)
  have "map (\<lambda>index. toString_nat (index + 1)) [0..<n] = map (\<lambda>index. [48 + (index + 1)]) [0..<n]"
    using n by (intro map_cong) (auto simp add: toString_nat_digit)
  moreover have "distinct (map (\<lambda>index. [48 + (index + 1)]) [0..<n])"
    by (simp add: distinct_map inj_on_def)
  ultimately have "distinct (map (\<lambda>index. toString_nat (index + 1)) [0..<n])"
    by (simp only:)
  then show ?thesis
    using ids by simp
qed

text \<open>The example states are states of the running component: the example form is
  reached by choosing four subjects and filling the fields in.\<close>

lemma reachable_edit:
  assumes "reachable P s" and "map id_s (subjects s) = ids" and "i \<in> set ids" and "formField u"
  shows "reachable P (updateSubject i u s) \<and> map id_s (subjects (updateSubject i u s)) = ids"
proof -
  obtain x where "x \<in> set (subjects s)" "id_s x = i"
    using assms(2,3) by auto
  then have "reachable P (updateSubject i u s)"
    using reachable.edit [OF assms(1) _ assms(4), of x] by simp
  then show ?thesis
    using updateSubject_ids [OF assms(4), of i s] assms(2) by simp
qed

lemma exampleState_steps:
  "exampleState =
     updateSubject (js ''4'') (SetCreditHours 4)
      (updateSubject (js ''4'') (SetMarks 85)
       (updateSubject (js ''4'') (SetName (js ''English''))
        (updateSubject (js ''3'') (SetCreditHours 2)
         (updateSubject (js ''3'') (SetMarks 72)
          (updateSubject (js ''3'') (SetName (js ''Chemistry''))
           (updateSubject (js ''2'') (SetName (js ''Physics''))
            (updateSubject (js ''1'') (SetCreditHours 3)
             (updateSubject (js ''1'') (SetMarks 100)
              (updateSubject (js ''1'') (SetName (js ''Math''))
               (onSelect 4 initialState))))))))))"
  by (simp add: exampleState_def exampleSubjects_def updateSubject_def onSelect_def
      setSubjectCount_def subjectCountEffect_def initialState_def upt_rec toString_nat_digit
      js_def)

lemma exampleState_reachable: "reachable P exampleState"
proof -
  let ?ids = "[js ''1'', js ''2'', js ''3'', js ''4'']"
  have m: "js ''1'' \<in> set ?ids" "js ''2'' \<in> set ?ids" "js ''3'' \<in> set ?ids"
    "js ''4'' \<in> set ?ids"
    by simp_all
  have "reachable P (onSelect 4 initialState)"
    by (intro reachable.select reachable.mount) (simp add: subjectOptions_def)
  moreover have "map id_s (subjects (onSelect 4 initialState)) = ?ids"
    by (simp add: onSelect_def setSubjectCount_def subjectCountEffect_def initialState_def
        upt_rec toString_nat_digit js_def)
  ultimately have "reachable P (onSelect 4 initialState)
      \<and> map id_s (subjects (onSelect 4 initialState)) = ?ids"
    by simp
  note s = this
  note s = reachable_edit [OF conjunct1 [OF s] conjunct2 [OF s] m(1),
      of "SetName (js ''Math'')", simplified]
  note s = reachable_edit [OF conjunct1 [OF s] conjunct2 [OF s] m(1),
      of "SetMarks 100", simplified]
  note s = reachable_edit [OF conjunct1 [OF s] conjunct2 [OF s] m(1),
      of "SetCreditHours 3", simplified]
  note s = reachable_edit [OF conjunct1 [OF s] conjunct2 [OF s] m(2),
      of "SetName (js ''Physics'')", simplified]
  note s = reachable_edit [OF conjunct1 [OF s] conjunct2 [OF s] m(3),
      of "SetName (js ''Chemistry'')", simplified]
  note s = reachable_edit [OF conjunct1 [OF s] conjunct2 [OF s] m(3),
      of "SetMarks 72", simplified]
  note s = reachable_edit [OF conjunct1 [OF s] conjunct2 [OF s] m(3),
      of "SetCreditHours 2", simplified]
  note s = reachable_edit [OF conjunct1 [OF s] conjunct2 [OF s] m(4),
      of "SetName (js ''English'')", simplified]
  note s = reachable_edit [OF conjunct1 [OF s] conjunct2 [OF s] m(4),
      of "SetMarks 85", simplified]
  note s = reachable_edit [OF conjunct1 [OF s] conjunct2 [OF s] m(4),
      of "SetCreditHours 4", simplified]
  show ?thesis
    unfolding exampleState_steps by (rule conjunct1 [OF s])
qed

lemma incompleteState_reachable: "reachable P incompleteState"
proof -
  have "map id_s (subjects exampleState) = [js ''1'', js ''2'', js ''3'', js ''4'']"
    by (simp add: exampleState_def exampleSubjects_def)
  then show ?thesis
    unfolding incompleteState_def
    using reachable_edit [OF exampleState_reachable, of _ "js ''4''" "SetName (js '' '')"]
    by simp
qed

lemma resultState_reachable: "reachable examplePlatform resultState"
  unfolding resultState_def
  by (rule reachable.calculate [OF exampleState_reachable]) (simp add: exampleState_def)

end
